theory Spec2Isabelle
  imports Complex_Main "HOL-Library.Char_ord" "HOL-Library.List_Lexorder" "HOL-Library.Multiset"
    "HOL-Library.Word"
begin

section \<open>Data model\<close>

text \<open>
  A shallow embedding of the request-execution core of the Shopify client:
  \<^verbatim>\<open>ResponseError.Error\<close>, \<^verbatim>\<open>wrapSpecificError\<close> and \<^verbatim>\<open>CheckResponseError\<close>
  (the error normalizer) and \<^verbatim>\<open>Client.doGetHeaders\<close> (the retry/execute loop).
  Go strings and byte slices are \<open>string\<close> (a list of bytes); Go's \<^verbatim>\<open>int\<close> is
  \<open>int\<close> (64-bit, the bounds written out where a conversion can leave them).
\<close>

type_synonym bytes = string

text \<open>
  A \<^verbatim>\<open>float64\<close>: its finite values as reals, and the three special values.
\<close>

datatype float64 = Finite real | PosInf | NegInf | NaN

text \<open>\<^verbatim>\<open>type RateLimitInfo struct\<close>\<close>

record RateLimitInfo =
  RequestCount :: int
  BucketSize :: int
  RetryAfterSeconds :: float64

text \<open>\<^verbatim>\<open>type ResponseError struct\<close>; a nil and an empty \<^verbatim>\<open>[]string\<close> are both \<open>[]\<close>.\<close>

record ResponseError =
  Status :: int
  Message :: string
  Errors :: "string list"

text \<open>\<^verbatim>\<open>type ResponseDecodingError struct { Body; Message; Status }\<close>\<close>

record ResponseDecodingError =
  RDE_Body :: bytes
  RDE_Message :: string
  RDE_Status :: int

text \<open>
  \<^verbatim>\<open>type RateLimitError struct { ResponseError; RetryAfter int }\<close>: the embedded
  struct is the field \<open>RL_ResponseError\<close>.
\<close>

record RateLimitError =
  RL_ResponseError :: ResponseError
  RetryAfter :: int

text \<open>
  The values of Go's \<^verbatim>\<open>error\<close> interface that the core returns. The errors of the
  standard library are opaque and carry their text: the HTTP client's transport error,
  the error of \<^verbatim>\<open>ioutil.ReadAll\<close> and the error of \<^verbatim>\<open>json.Decoder.Decode\<close>.
\<close>

datatype error =
    ClientDoErr string
  | ReadAllErr string
  | DecoderErr string
  | DecodingErr ResponseDecodingError
  | RespErr ResponseError
  | RateLimitErr RateLimitError

text \<open>A run-time panic: the only one the core can raise is a nil dereference.\<close>

datatype panic = NilPointerDereference

text \<open>
  What \<^verbatim>\<open>encoding/json\<close> decodes into an \<^verbatim>\<open>interface{}\<close>: \<^verbatim>\<open>nil\<close>, \<^verbatim>\<open>bool\<close>,
  \<^verbatim>\<open>float64\<close>, \<^verbatim>\<open>string\<close>, \<^verbatim>\<open>[]interface{}\<close> and \<^verbatim>\<open>map[string]interface{}\<close>.
  A Go map is unordered and \<^verbatim>\<open>range\<close> visits its entries in an order that changes
  from run to run: \<open>JObject\<close> holds the entries in the order in which the \<^verbatim>\<open>range\<close>
  statement of this execution visits them, so a statement about every list of entries
  is a statement about every iteration order.
\<close>

datatype json =
    JNull
  | JBool bool
  | JNumber float64
  | JString string
  | JArray "json list"
  | JObject "(string \<times> json) list"

text \<open>
  The anonymous struct \<^verbatim>\<open>shopifyError\<close> of \<^verbatim>\<open>CheckResponseError\<close>:
  \<^verbatim>\<open>Error string\<close> and \<^verbatim>\<open>Errors interface{}\<close> (\<open>JNull\<close> is the nil interface).
\<close>

record shopifyError =
  se_Error :: string
  se_Errors :: json

text \<open>
  An \<^verbatim>\<open>io.ReadCloser\<close>: the bytes it delivers and the error that ends the stream
  (\<open>None\<close> for a clean end of file).
\<close>

datatype ReadCloser = Reader bytes "string option"

text \<open>
  \<^verbatim>\<open>http.Header\<close> is a \<^verbatim>\<open>map[string][]string\<close>; a key that is not in the map reads as
  the nil slice.
\<close>

type_synonym Header = "string \<Rightarrow> string list"

text \<open>The fields of \<^verbatim>\<open>http.Response\<close> that the core reads.\<close>

record Response =
  StatusCode :: int
  Header :: Header
  Body :: ReadCloser

text \<open>
  The result of \<^verbatim>\<open>strconv.ParseFloat(s, 64)\<close> as its documentation gives it: a value
  and no error; a syntax error, with value 0; or a range error, with value \<open>\<plusminus>Inf\<close>.
\<close>

datatype ParseFloatResult = Parsed float64 | ErrSyntax | ErrRange float64

text \<open>
  The functions of Go's standard library that the core calls and that are taken as
  parameters: the JSON decoder (into the struct \<^verbatim>\<open>shopifyError\<close>, returning the
  error's text on failure; and into the caller's target \<^verbatim>\<open>v\<close>, of which only the error
  is observed), the \<^verbatim>\<open>%v\<close> formatting of a decoded value that is not a string, the
  float parser on a string that is not empty, and the implementation-dependent result
  of converting to \<^verbatim>\<open>int\<close> a float that no \<^verbatim>\<open>int\<close> represents.
\<close>

record stdlib =
  json_Unmarshal :: "bytes \<Rightarrow> string + shopifyError"
  json_Decode :: "bytes \<Rightarrow> string option"
  fmt_Sprint :: "json \<Rightarrow> string"
  parse_float :: "string \<Rightarrow> ParseFloatResult"
  int_of_unrepresentable :: "float64 \<Rightarrow> int"

text \<open>The fields of \<^verbatim>\<open>Client\<close> that \<^verbatim>\<open>doGetHeaders\<close> reads or writes.\<close>

record Client =
  apiVersion :: string
  retries :: int
  attempts :: nat
  RateLimits :: RateLimitInfo

section \<open>Constants and library functions\<close>

definition defaultApiVersion :: string where
  "defaultApiVersion = ''stable''"

abbreviation StatusOK :: int where "StatusOK \<equiv> 200"
abbreviation StatusMultipleChoices :: int where "StatusMultipleChoices \<equiv> 300"
abbreviation StatusNotAcceptable :: int where "StatusNotAcceptable \<equiv> 406"
abbreviation StatusTooManyRequests :: int where "StatusTooManyRequests \<equiv> 429"
abbreviation StatusServiceUnavailable :: int where "StatusServiceUnavailable \<equiv> 503"

text \<open>
  \<^verbatim>\<open>http.StatusText\<close>: the core calls it at status 406 only, and only that text is
  given; the texts of the other codes are left out and read as empty.
\<close>

definition http_StatusText :: "int \<Rightarrow> string" where
  "http_StatusText code = (if code = StatusNotAcceptable then ''Not Acceptable'' else [])"

text \<open>\<^verbatim>\<open>strings.Join\<close>\<close>

fun strings_Join :: "string list \<Rightarrow> string \<Rightarrow> string" where
  "strings_Join [] sep = []"
| "strings_Join [x] sep = x"
| "strings_Join (x # y # ys) sep = x @ sep @ strings_Join (y # ys) sep"

text \<open>
  \<^verbatim>\<open>strings.Split(s, sep)\<close> for a separator of one byte: one more field than there are
  separators in \<open>s\<close>.
\<close>

fun strings_Split :: "string \<Rightarrow> char \<Rightarrow> string list" where
  "strings_Split [] sep = [[]]"
| "strings_Split (c # cs) sep =
     (if c = sep then [] # strings_Split cs sep
      else (case strings_Split cs sep of
              [] \<Rightarrow> [[c]]
            | w # ws \<Rightarrow> (c # w) # ws))"

text \<open>
  \<^verbatim>\<open>sort.Strings\<close>: ascending in Go's string order, which compares byte by byte; it is
  the lexicographic order on lists of characters ordered by their codes.
\<close>

definition sort_Strings :: "string list \<Rightarrow> string list" where
  "sort_Strings xs = sort xs"

text \<open>
  \<^verbatim>\<open>strconv.Atoi\<close> on a 64-bit platform, as the pair of its value and whether it
  succeeded: an optional sign and decimal digits; 0 on a syntax error, the nearest
  \<^verbatim>\<open>int\<close> on a range error.
\<close>

definition isDigit :: "char \<Rightarrow> bool" where
  "isDigit c = (CHR ''0'' \<le> c \<and> c \<le> CHR ''9'')"

definition digitsValue :: "string \<Rightarrow> int" where
  "digitsValue ds = foldl (\<lambda>n ch. n * 10 + (of_char ch - 48)) 0 ds"

definition strconv_Atoi :: "string \<Rightarrow> int \<times> bool" where
  "strconv_Atoi s =
     (let neg = (s \<noteq> [] \<and> hd s = CHR ''-'');
          ds = (if s \<noteq> [] \<and> (hd s = CHR ''-'' \<or> hd s = CHR ''+'') then tl s else s)
      in if ds = [] \<or> \<not> list_all isDigit ds then (0, False)
         else let n = (if neg then - digitsValue ds else digitsValue ds)
              in if n > 9223372036854775807 then (9223372036854775807, False)
                 else if n < - 9223372036854775808 then (- 9223372036854775808, False)
                 else (n, True))"

text \<open>
  \<^verbatim>\<open>strconv.ParseFloat(s, 64)\<close>: the empty string is not a number, a syntax error.
\<close>

definition strconv_ParseFloat :: "stdlib \<Rightarrow> string \<Rightarrow> ParseFloatResult" where
  "strconv_ParseFloat lib s = (if s = [] then ErrSyntax else parse_float lib s)"

text \<open>
  \<^verbatim>\<open>f, _ := strconv.ParseFloat(s, 64)\<close>: the value that is left when the error is
  dropped.
\<close>

definition ParseFloat_value :: "ParseFloatResult \<Rightarrow> float64" where
  "ParseFloat_value res =
     (case res of Parsed f \<Rightarrow> f | ErrSyntax \<Rightarrow> Finite 0 | ErrRange f \<Rightarrow> f)"

text \<open>
  The conversion \<^verbatim>\<open>int(f)\<close>: the fraction is discarded (truncation towards zero);
  where the result does not fit an \<^verbatim>\<open>int\<close>, Go leaves the value to the implementation.
\<close>

definition truncate_real :: "real \<Rightarrow> int" where
  "truncate_real x = (if 0 \<le> x then \<lfloor>x\<rfloor> else \<lceil>x\<rceil>)"

definition int_of_float64 :: "stdlib \<Rightarrow> float64 \<Rightarrow> int" where
  "int_of_float64 lib f =
     (case f of
        Finite x \<Rightarrow>
          if - 9223372036854775808 \<le> truncate_real x \<and> truncate_real x \<le> 9223372036854775807
          then truncate_real x
          else int_of_unrepresentable lib f
      | _ \<Rightarrow> int_of_unrepresentable lib f)"

text \<open>
  \<^verbatim>\<open>textproto.CanonicalMIMEHeaderKey\<close>: a key of valid header bytes gets its first
  letter and every letter after a hyphen in upper case and the others in lower case;
  any other key is returned as it is.
\<close>

definition isLower :: "char \<Rightarrow> bool" where
  "isLower c = (CHR ''a'' \<le> c \<and> c \<le> CHR ''z'')"

definition isUpper :: "char \<Rightarrow> bool" where
  "isUpper c = (CHR ''A'' \<le> c \<and> c \<le> CHR ''Z'')"

definition validHeaderFieldByte :: "char \<Rightarrow> bool" where
  "validHeaderFieldByte c =
     (isLower c \<or> isUpper c \<or> isDigit c \<or> c \<in> set ''!#$%&*+-.^_|~''
      \<or> c = CHR 0x27 \<or> c = CHR 0x60)"

fun canonicalCase :: "bool \<Rightarrow> string \<Rightarrow> string" where
  "canonicalCase upper [] = []"
| "canonicalCase upper (c # cs) =
     (let c' = (if upper \<and> isLower c then char_of (of_char c - (32::nat))
                else if \<not> upper \<and> isUpper c then char_of (of_char c + (32::nat))
                else c)
      in c' # canonicalCase (c' = CHR ''-'') cs)"

definition CanonicalMIMEHeaderKey :: "string \<Rightarrow> string" where
  "CanonicalMIMEHeaderKey s =
     (if list_all validHeaderFieldByte s then canonicalCase True s else s)"

text \<open>\<^verbatim>\<open>Header.Get\<close>: the first value of the canonical key, \<^verbatim>\<open>""\<close> when there is none.\<close>

definition Header_Get :: "Header \<Rightarrow> string \<Rightarrow> string" where
  "Header_Get h key =
     (case h (CanonicalMIMEHeaderKey key) of [] \<Rightarrow> [] | v # _ \<Rightarrow> v)"

text \<open>\<^verbatim>\<open>ioutil.ReadAll\<close>: the bytes read and the error, if the stream ended with one.\<close>

fun ioutil_ReadAll :: "ReadCloser \<Rightarrow> bytes \<times> string option" where
  "ioutil_ReadAll (Reader b err) = (b, err)"

text \<open>
  \<^verbatim>\<open>fmt.Sprint(elem)\<close> and the verb \<^verbatim>\<open>%v\<close> of \<^verbatim>\<open>fmt.Sprintf\<close> on a decoded value: a
  string is printed as it is.
\<close>

definition fmt_v :: "stdlib \<Rightarrow> json \<Rightarrow> string" where
  "fmt_v lib elem = (case elem of JString s \<Rightarrow> s | _ \<Rightarrow> fmt_Sprint lib elem)"

section \<open>The error normalizer\<close>

text \<open>\<^verbatim>\<open>func (e ResponseError) Error() string\<close>\<close>

definition ResponseError_Error :: "ResponseError \<Rightarrow> string" where
  "ResponseError_Error e =
     (if Message e \<noteq> [] then Message e
      else let s = strings_Join (sort_Strings (Errors e)) '', ''
           in if s \<noteq> [] then s else ''Unknown Error'')"

text \<open>\<^verbatim>\<open>func wrapSpecificError(r *http.Response, err ResponseError) error\<close>\<close>

definition wrapSpecificError :: "stdlib \<Rightarrow> Response \<Rightarrow> ResponseError \<Rightarrow> error" where
  "wrapSpecificError lib r err =
     (if Status err = StatusTooManyRequests then
        (let f = ParseFloat_value (strconv_ParseFloat lib (Header_Get (Header r) ''Retry-After''))
         in RateLimitErr \<lparr>RL_ResponseError = err, RetryAfter = int_of_float64 lib f\<rparr>)
      else if Status err = StatusNotAcceptable then
        RespErr (err\<lparr>Message := http_StatusText (Status err)\<rparr>)
      else RespErr err)"

text \<open>
  The body of the two inner loops over the elements of one key of the \<^verbatim>\<open>errors\<close>
  object: the first sub-error becomes the message if none is set, and the sub-error
  \<^verbatim>\<open>fmt.Sprintf("%v: %v", k, elem)\<close> is appended.
\<close>

definition addTopicAndElem :: "stdlib \<Rightarrow> string \<Rightarrow> ResponseError \<Rightarrow> json \<Rightarrow> ResponseError" where
  "addTopicAndElem lib k re elem =
     (let re1 = (if Message re = [] then re\<lparr>Message := k @ '': '' @ fmt_v lib elem\<rparr> else re);
          topicAndElem = k @ '': '' @ fmt_v lib elem
      in re1\<lparr>Errors := Errors re1 @ [topicAndElem]\<rparr>)"

text \<open>
  One entry \<open>k, v\<close> of the \<^verbatim>\<open>range\<close> over the \<^verbatim>\<open>errors\<close> object, a switch on
  \<^verbatim>\<open>reflect.TypeOf(v).Kind()\<close>: \<^verbatim>\<open>reflect.TypeOf\<close> of the nil interface is nil, and
  the call of \<^verbatim>\<open>Kind\<close> on it panics; a slice and a string add sub-errors; any other
  kind matches no case.
\<close>

fun rangeEntry :: "stdlib \<Rightarrow> string \<Rightarrow> json \<Rightarrow> ResponseError \<Rightarrow> panic + ResponseError" where
  "rangeEntry lib k JNull re = Inl NilPointerDereference"
| "rangeEntry lib k (JArray elems) re = Inr (foldl (addTopicAndElem lib k) re elems)"
| "rangeEntry lib k (JString elem) re = Inr (addTopicAndElem lib k re (JString elem))"
| "rangeEntry lib k (JBool b) re = Inr re"
| "rangeEntry lib k (JNumber n) re = Inr re"
| "rangeEntry lib k (JObject m) re = Inr re"

fun rangeMap :: "stdlib \<Rightarrow> (string \<times> json) list \<Rightarrow> ResponseError \<Rightarrow> panic + ResponseError" where
  "rangeMap lib [] re = Inr re"
| "rangeMap lib ((k, v) # kvs) re =
     (case rangeEntry lib k v re of
        Inl p \<Rightarrow> Inl p
      | Inr re' \<Rightarrow> rangeMap lib kvs re')"

text \<open>
  The switch on \<^verbatim>\<open>reflect.TypeOf(shopifyError.Errors).Kind()\<close> of
  \<^verbatim>\<open>CheckResponseError\<close>, entered when \<^verbatim>\<open>Errors\<close> is not nil: a string is the
  message; the elements of an array are appended as sub-errors and joined into the
  message; an object is ranged over; a number or a boolean matches no case.
\<close>

fun flattenErrors :: "stdlib \<Rightarrow> ResponseError \<Rightarrow> json \<Rightarrow> panic + ResponseError" where
  "flattenErrors lib re JNull = Inr re"
| "flattenErrors lib re (JString s) = Inr (re\<lparr>Message := s\<rparr>)"
| "flattenErrors lib re (JArray elems) =
     (let re1 = foldl (\<lambda>acc elem. acc\<lparr>Errors := Errors acc @ [fmt_v lib elem]\<rparr>) re elems
      in Inr (re1\<lparr>Message := strings_Join (Errors re1) '', ''\<rparr>))"
| "flattenErrors lib re (JObject kvs) = rangeMap lib kvs re"
| "flattenErrors lib re (JBool b) = Inr re"
| "flattenErrors lib re (JNumber n) = Inr re"

text \<open>
  \<^verbatim>\<open>func CheckResponseError(r *http.Response) error\<close>: \<open>Inr None\<close> is the nil error,
  \<open>Inl\<close> a panic.
\<close>

definition CheckResponseError :: "stdlib \<Rightarrow> Response \<Rightarrow> panic + error option" where
  "CheckResponseError lib r =
     (if StatusOK \<le> StatusCode r \<and> StatusCode r < StatusMultipleChoices then Inr None
      else
        (case ioutil_ReadAll (Body r) of
           (bodyBytes, Some err) \<Rightarrow> Inr (Some (ReadAllErr err))
         | (bodyBytes, None) \<Rightarrow>
             (case (if length bodyBytes > 0 then json_Unmarshal lib bodyBytes
                    else Inr \<lparr>se_Error = [], se_Errors = JNull\<rparr>) of
                Inl msg \<Rightarrow>
                  Inr (Some (DecodingErr
                    \<lparr>RDE_Body = bodyBytes, RDE_Message = msg, RDE_Status = StatusCode r\<rparr>))
              | Inr se \<Rightarrow>
                  (let responseError =
                         \<lparr>Status = StatusCode r, Message = se_Error se, Errors = []\<rparr>
                   in case flattenErrors lib responseError (se_Errors se) of
                        Inl p \<Rightarrow> Inl p
                      | Inr re \<Rightarrow> Inr (Some (wrapSpecificError lib r re))))))"

section \<open>The retry/execute loop\<close>

text \<open>
  \<^verbatim>\<open>c.Client.Do(req)\<close> returns a transport error or a completed response. The
  transport is the function that gives the result of the call made after \<open>n\<close> earlier
  calls of the same \<^verbatim>\<open>doGetHeaders\<close>.
\<close>

datatype DoResult = DoError string | DoResponse Response

text \<open>
  \<^verbatim>\<open>logResponse\<close> reads the whole body, dropping a read error, and puts the bytes back
  as a buffer; the logging itself has no effect on the client.
\<close>

definition logResponse :: "Response \<Rightarrow> Response" where
  "logResponse res = res\<lparr>Body := Reader (fst (ioutil_ReadAll (Body res))) None\<rparr>"

text \<open>
  \<^verbatim>\<open>wait := time.Duration(rateLimitErr.RetryAfter) * time.Second\<close>, in nanoseconds:
  the product wraps around in 64 bits.
\<close>

definition waitDuration :: "int \<Rightarrow> int" where
  "waitDuration retryAfter = sint (word_of_int (retryAfter * 1000000000) :: 64 word)"

text \<open>How the loop is left: by \<^verbatim>\<open>break\<close>, by \<^verbatim>\<open>return nil, err\<close> or by a panic.\<close>

datatype LoopExit = Break Response | Return error | LoopPanic panic

text \<open>
  The \<^verbatim>\<open>for\<close> loop of \<^verbatim>\<open>doGetHeaders\<close>, with the client, the local \<^verbatim>\<open>retries\<close> (here \<open>retriesLeft\<close>) and
  the list of the durations \<^verbatim>\<open>time.Sleep\<close> was called with so far.
\<close>

function retryLoop ::
  "stdlib \<Rightarrow> (nat \<Rightarrow> DoResult) \<Rightarrow> Client \<Rightarrow> int \<Rightarrow> int list \<Rightarrow> LoopExit \<times> Client \<times> int list" where
  "retryLoop lib Do c retriesLeft slept =
     (let c1 = c\<lparr>attempts := attempts c + 1\<rparr> in
      case Do (attempts c) of
        DoError err \<Rightarrow> (Return (ClientDoErr err), c1, slept)
      | DoResponse resp0 \<Rightarrow>
          (let resp = logResponse resp0 in
           case CheckResponseError lib resp of
             Inl p \<Rightarrow> (LoopPanic p, c1, slept)
           | Inr None \<Rightarrow> (Break resp, c1, slept)
           | Inr (Some respErr) \<Rightarrow>
               if retriesLeft \<le> 1 then (Return respErr, c1, slept)
               else
                 (case respErr of
                    RateLimitErr rateLimitErr \<Rightarrow>
                      retryLoop lib Do c1 (retriesLeft - 1)
                        (slept @ [waitDuration (RetryAfter rateLimitErr)])
                  | _ \<Rightarrow>
                      if StatusCode resp = StatusServiceUnavailable
                      then retryLoop lib Do c1 (retriesLeft - 1) slept
                      else (Return respErr, c1, slept))))"
  by pat_completeness auto
termination
  by (relation "measure (\<lambda>(lib, Do, c, retriesLeft, slept). nat retriesLeft)") auto

text \<open>
  The update of the rate-limit state from the headers of the response, the last
  statements of \<^verbatim>\<open>doGetHeaders\<close>.
\<close>

definition updateRateLimits :: "stdlib \<Rightarrow> Response \<Rightarrow> Client \<Rightarrow> Client" where
  "updateRateLimits lib resp c =
     (let s = strings_Split (Header_Get (Header resp) ''X-Shopify-Shop-Api-Call-Limit'') CHR ''/'';
          c1 = (if length s = 2
                then c\<lparr>RateLimits := (RateLimits c)
                       \<lparr>RequestCount := fst (strconv_Atoi (s ! 0)),
                        BucketSize := fst (strconv_Atoi (s ! 1))\<rparr>\<rparr>
                else c)
      in c1\<lparr>RateLimits := (RateLimits c1)
             \<lparr>RetryAfterSeconds :=
                ParseFloat_value (strconv_ParseFloat lib (Header_Get (Header resp) ''Retry-After''))\<rparr>\<rparr>)"

text \<open>What \<^verbatim>\<open>doGetHeaders\<close> returns: the headers, an error, or a panic.\<close>

datatype Outcome = Ok Header | Err error | Panicked panic

text \<open>
  \<^verbatim>\<open>func (c *Client) doGetHeaders(req *http.Request, v interface{}) (http.Header, error)\<close>:
  the request is part of the transport \<open>Do\<close>; of the target \<open>v\<close> only whether it is
  non-nil matters to the client. The result is the outcome, the client afterwards and
  the sleeps made.
\<close>

definition doGetHeaders ::
  "stdlib \<Rightarrow> (nat \<Rightarrow> DoResult) \<Rightarrow> Client \<Rightarrow> bool \<Rightarrow> Outcome \<times> Client \<times> int list" where
  "doGetHeaders lib Do c v =
     (case retryLoop lib Do (c\<lparr>attempts := 0\<rparr>) (retries c) [] of
        (Return err, c1, slept) \<Rightarrow> (Err err, c1, slept)
      | (LoopPanic p, c1, slept) \<Rightarrow> (Panicked p, c1, slept)
      | (Break resp0, c1, slept) \<Rightarrow>
          (let resp = logResponse resp0;
               c2 = (if apiVersion c1 = defaultApiVersion
                        \<and> Header_Get (Header resp) ''X-Shopify-API-Version'' \<noteq> []
                     then c1\<lparr>apiVersion := Header_Get (Header resp) ''X-Shopify-API-Version''\<rparr>
                     else c1)
           in case (if v then json_Decode lib (fst (ioutil_ReadAll (Body resp))) else None) of
                Some err \<Rightarrow> (Err (DecoderErr err), c2, slept)
              | None \<Rightarrow> (Ok (Header resp), updateRateLimits lib resp c2, slept)))"

section \<open>Notions used in the statements\<close>

text \<open>
  The \<^verbatim>\<open>ResponseError\<close> that an error value carries: the value itself, or the one
  embedded in a \<^verbatim>\<open>RateLimitError\<close>.
\<close>

definition responseErrorOf :: "error \<Rightarrow> ResponseError option" where
  "responseErrorOf err =
     (case err of
        RespErr e \<Rightarrow> Some e
      | RateLimitErr e \<Rightarrow> Some (RL_ResponseError e)
      | _ \<Rightarrow> None)"

text \<open>
  The sub-errors the specification gives for one key of the \<^verbatim>\<open>errors\<close> object: one
  \<^verbatim>\<open>"<key>: <element>"\<close> per element of an array, one \<^verbatim>\<open>"<key>: <value>"\<close> for a
  string, none for a value of another kind.
\<close>

fun topicErrors :: "stdlib \<Rightarrow> string \<times> json \<Rightarrow> string list" where
  "topicErrors lib (k, JArray elems) = map (\<lambda>elem. k @ '': '' @ fmt_v lib elem) elems"
| "topicErrors lib (k, JString s) = [k @ '': '' @ s]"
| "topicErrors lib (k, v) = []"

text \<open>The first string of a list, the empty string if there is none.\<close>

definition firstOr :: "string list \<Rightarrow> string" where
  "firstOr xs = (case xs of [] \<Rightarrow> [] | x # _ \<Rightarrow> x)"

text \<open>
  A sequence of calls of \<^verbatim>\<open>doGetHeaders\<close> on one client, each with its transport and
  its target: the client after the last call.
\<close>

fun doCalls :: "stdlib \<Rightarrow> Client \<Rightarrow> ((nat \<Rightarrow> DoResult) \<times> bool) list \<Rightarrow> Client" where
  "doCalls lib c [] = c"
| "doCalls lib c ((Do, v) # calls) = doCalls lib (fst (snd (doGetHeaders lib Do c v))) calls"

section \<open>Example inputs\<close>

text \<open>
  Concrete responses, a concrete client and a concrete standard library, for the
  instances of the theorems below. The library decodes the four bodies of the examples
  as \<^verbatim>\<open>encoding/json\<close> does and parses the two numbers of the examples.
\<close>

definition bodyOrder :: bytes where
  \<open>bodyOrder = ''{"errors":{"order":["order is wrong"]}}''\<close>

definition bodyArray :: bytes where
  \<open>bodyArray = ''{"errors":["not","very good"]}''\<close>

definition bodyEmptyString :: bytes where
  \<open>bodyEmptyString = ''{"errors":[""]}''\<close>

definition bodyNullTopic :: bytes where
  \<open>bodyNullTopic = ''{"errors":{"order":null}}''\<close>

definition bodyMalformed :: bytes where
  "bodyMalformed = ''{error:bad request}''"

definition exampleUnmarshal :: "bytes \<Rightarrow> string + shopifyError" where
  "exampleUnmarshal b =
     (if b = bodyOrder then
        Inr \<lparr>se_Error = [],
             se_Errors = JObject [(''order'', JArray [JString ''order is wrong''])]\<rparr>
      else if b = bodyArray then
        Inr \<lparr>se_Error = [], se_Errors = JArray [JString ''not'', JString ''very good'']\<rparr>
      else if b = bodyEmptyString then
        Inr \<lparr>se_Error = [], se_Errors = JArray [JString []]\<rparr>
      else if b = bodyNullTopic then
        Inr \<lparr>se_Error = [], se_Errors = JObject [(''order'', JNull)]\<rparr>
      else Inl ''invalid character'')"

definition exampleParseFloat :: "string \<Rightarrow> ParseFloatResult" where
  "exampleParseFloat s =
     (if s = ''2'' then Parsed (Finite 2)
      else if s = ''2.5'' then Parsed (Finite (5 / 2))
      else ErrSyntax)"

definition exampleLib :: stdlib where
  "exampleLib =
     \<lparr>json_Unmarshal = exampleUnmarshal,
      json_Decode = (\<lambda>b. if b = [] then Some ''EOF'' else None),
      fmt_Sprint = (\<lambda>v. []),
      parse_float = exampleParseFloat,
      int_of_unrepresentable = (\<lambda>f. - 9223372036854775808)\<rparr>"

text \<open>A response with a status, headers (under their canonical keys) and a body.\<close>

definition exampleResponse :: "int \<Rightarrow> (string \<times> string) list \<Rightarrow> bytes \<Rightarrow> Response" where
  "exampleResponse code hs b =
     \<lparr>StatusCode = code,
      Header = (\<lambda>k. map snd (filter (\<lambda>kv. fst kv = k) hs)),
      Body = Reader b None\<rparr>"

text \<open>A transport that answers every call with the same response.\<close>

definition always :: "Response \<Rightarrow> nat \<Rightarrow> DoResult" where
  "always resp n = DoResponse resp"

text \<open>A fresh client with a retry budget.\<close>

definition exampleClient :: "int \<Rightarrow> Client" where
  "exampleClient r =
     \<lparr>apiVersion = ''stable'', retries = r, attempts = 0,
      RateLimits = \<lparr>RequestCount = 0, BucketSize = 0, RetryAfterSeconds = Finite 0\<rparr>\<rparr>"

section \<open>Facts about the retry loop\<close>

declare retryLoop.simps [simp del]

text \<open>
  A rule for the loop: a property of its result holds if it holds of every exit after
  one more attempt and is carried back over a retry, which is made only with more than
  one retry left.
\<close>

lemma retryLoop_rule:
  assumes transport: "\<And>c n slept err. Do (attempts c) = DoError err \<Longrightarrow>
            P c n slept (Return (ClientDoErr err), c\<lparr>attempts := Suc (attempts c)\<rparr>, slept)"
    and panicked: "\<And>c n slept resp0 p. Do (attempts c) = DoResponse resp0 \<Longrightarrow>
            CheckResponseError lib (logResponse resp0) = Inl p \<Longrightarrow>
            P c n slept (LoopPanic p, c\<lparr>attempts := Suc (attempts c)\<rparr>, slept)"
    and success: "\<And>c n slept resp0. Do (attempts c) = DoResponse resp0 \<Longrightarrow>
            CheckResponseError lib (logResponse resp0) = Inr None \<Longrightarrow>
            P c n slept (Break (logResponse resp0), c\<lparr>attempts := Suc (attempts c)\<rparr>, slept)"
    and final: "\<And>c n slept resp0 respErr. Do (attempts c) = DoResponse resp0 \<Longrightarrow>
            CheckResponseError lib (logResponse resp0) = Inr (Some respErr) \<Longrightarrow>
            P c n slept (Return respErr, c\<lparr>attempts := Suc (attempts c)\<rparr>, slept)"
    and again: "\<And>c n slept resp0 respErr w res. Do (attempts c) = DoResponse resp0 \<Longrightarrow>
            CheckResponseError lib (logResponse resp0) = Inr (Some respErr) \<Longrightarrow> 1 < n \<Longrightarrow>
            P (c\<lparr>attempts := Suc (attempts c)\<rparr>) (n - 1) (slept @ w) res \<Longrightarrow> P c n slept res"
  shows "P c n slept (retryLoop lib Do c n slept)"
  using assms
proof (induction lib Do c n slept rule: retryLoop.induct)
  case (1 lib Do c n slept)
  note transport = "1.prems"(1) and panicked = "1.prems"(2) and success = "1.prems"(3)
    and final = "1.prems"(4) and again = "1.prems"(5)
  let ?c1 = "c\<lparr>attempts := attempts c + 1\<rparr>"
  show ?case
  proof (cases "Do (attempts c)")
    case (DoError err)
    then have "retryLoop lib Do c n slept = (Return (ClientDoErr err), ?c1, slept)"
      by (subst retryLoop.simps) simp
    then show ?thesis using transport[OF DoError] by simp
  next
    case (DoResponse resp0)
    show ?thesis
    proof (cases "CheckResponseError lib (logResponse resp0)")
      case (Inl p)
      with DoResponse have "retryLoop lib Do c n slept = (LoopPanic p, ?c1, slept)"
        by (subst retryLoop.simps) simp
      then show ?thesis using panicked[OF DoResponse Inl] by simp
    next
      case (Inr eo)
      show ?thesis
      proof (cases eo)
        case None
        with DoResponse Inr have "retryLoop lib Do c n slept = (Break (logResponse resp0), ?c1, slept)"
          by (subst retryLoop.simps) simp
        then show ?thesis using success[OF DoResponse] Inr None by simp
      next
        case (Some respErr)
        show ?thesis
        proof (cases "n \<le> 1")
          case True
          with DoResponse Inr Some have "retryLoop lib Do c n slept = (Return respErr, ?c1, slept)"
            by (subst retryLoop.simps) simp
          then show ?thesis using final[OF DoResponse] Inr Some by simp
        next
          case False
          show ?thesis
          proof (cases "\<exists>rl. respErr = RateLimitErr rl")
            case True
            then obtain rl where rl: "respErr = RateLimitErr rl" by blast
            have eq: "retryLoop lib Do c n slept =
                  retryLoop lib Do ?c1 (n - 1) (slept @ [waitDuration (RetryAfter rl)])"
              using DoResponse Inr Some False rl by (subst retryLoop.simps) simp
            have "P ?c1 (n - 1) (slept @ [waitDuration (RetryAfter rl)])
                    (retryLoop lib Do ?c1 (n - 1) (slept @ [waitDuration (RetryAfter rl)]))"
              using "1.IH"(6)[OF refl DoResponse refl Inr Some False rl "1.prems"] by simp
            then show ?thesis using again[OF DoResponse, of respErr n slept "[waitDuration (RetryAfter rl)]"] Inr Some False eq by simp
          next
            case notrl: False
            show ?thesis
            proof (cases "StatusCode (logResponse resp0) = StatusServiceUnavailable")
              case True
              have eq: "retryLoop lib Do c n slept = retryLoop lib Do ?c1 (n - 1) slept"
                using DoResponse Inr Some False notrl True
                by (subst retryLoop.simps) (cases respErr; simp add: Let_def)
              have "P ?c1 (n - 1) (slept @ []) (retryLoop lib Do ?c1 (n - 1) slept)"
                using "1.IH"(1-5)[OF refl DoResponse refl Inr Some False _ True "1.prems"] notrl
                by (cases respErr) simp_all
              then show ?thesis using again[OF DoResponse, of respErr n slept "[]"] Inr Some False eq by simp
            next
              case no503: False
              have "retryLoop lib Do c n slept = (Return respErr, ?c1, slept)"
                using DoResponse Inr Some False notrl no503
                by (subst retryLoop.simps) (cases respErr; simp add: Let_def)
              then show ?thesis using final[OF DoResponse] Inr Some by simp
            qed
          qed
        qed
      qed
    qed
  qed
qed

lemma retryLoop_once:
  "n \<le> 1 \<Longrightarrow> retryLoop lib Do c n slept =
     (case Do (attempts c) of
        DoError err \<Rightarrow> (Return (ClientDoErr err), c\<lparr>attempts := attempts c + 1\<rparr>, slept)
      | DoResponse resp0 \<Rightarrow>
          (case CheckResponseError lib (logResponse resp0) of
             Inl p \<Rightarrow> (LoopPanic p, c\<lparr>attempts := attempts c + 1\<rparr>, slept)
           | Inr None \<Rightarrow> (Break (logResponse resp0), c\<lparr>attempts := attempts c + 1\<rparr>, slept)
           | Inr (Some respErr) \<Rightarrow> (Return respErr, c\<lparr>attempts := attempts c + 1\<rparr>, slept)))"
  by (subst retryLoop.simps) (simp add: Let_def split: DoResult.splits sum.splits option.splits)

lemma retryLoop_attempts:
  "attempts c < attempts (fst (snd (retryLoop lib Do c n slept))) \<and>
   int (attempts (fst (snd (retryLoop lib Do c n slept)))) \<le> int (attempts c) + max 1 n"
  by (rule retryLoop_rule
        [where P = "\<lambda>c n slept res. attempts c < attempts (fst (snd res)) \<and>
                      int (attempts (fst (snd res))) \<le> int (attempts c) + max 1 n"])
     auto

lemma retryLoop_frame:
  "fst (snd (retryLoop lib Do c n slept)) =
     c\<lparr>attempts := attempts (fst (snd (retryLoop lib Do c n slept)))\<rparr>"
  by (rule retryLoop_rule
        [where P = "\<lambda>c n slept res. fst (snd res) = c\<lparr>attempts := attempts (fst (snd res))\<rparr>"])
     auto

lemma retryLoop_panic_source:
  "fst (retryLoop lib Do c n slept) = LoopPanic p \<longrightarrow>
     (\<exists>k resp0. Do k = DoResponse resp0 \<and> CheckResponseError lib (logResponse resp0) = Inl p)"
  by (rule retryLoop_rule
        [where P = "\<lambda>c n slept res. fst res = LoopPanic p \<longrightarrow>
                      (\<exists>k resp0. Do k = DoResponse resp0 \<and>
                         CheckResponseError lib (logResponse resp0) = Inl p)"])
     auto

lemma retryLoop_split:
  obtains ex k sl where
    "retryLoop lib Do (c\<lparr>attempts := 0\<rparr>) n [] = (ex, c\<lparr>attempts := k\<rparr>, sl)"
proof -
  obtain ex c1 sl where r: "retryLoop lib Do (c\<lparr>attempts := 0\<rparr>) n [] = (ex, c1, sl)"
    by (cases "retryLoop lib Do (c\<lparr>attempts := 0\<rparr>) n []")
  from retryLoop_frame[of lib Do "c\<lparr>attempts := 0\<rparr>" n "[]"] r
  have "c1 = c\<lparr>attempts := attempts c1\<rparr>" by simp
  with r that show thesis by metis
qed

section \<open>Facts about the normalizer and the call\<close>

lemma firstOr_simps [simp]: "firstOr [] = []" "firstOr (x # xs) = x"
  by (simp_all add: firstOr_def)

lemma firstOr_append:
  "firstOr (xs @ ys) = (if xs \<noteq> [] then firstOr xs else firstOr ys)"
  by (cases xs) (simp_all add: firstOr_def)

lemma strings_Join_empty_iff:
  "sep \<noteq> [] \<Longrightarrow> strings_Join xs sep = [] \<longleftrightarrow> xs = [] \<or> xs = [[]]"
  by (induction xs sep rule: strings_Join.induct) auto

lemma foldl_addTopicAndElem:
  "foldl (addTopicAndElem lib k) re elems =
     \<lparr>Status = Status re,
      Message = (if Message re \<noteq> [] then Message re
                 else firstOr (map (\<lambda>elem. k @ '': '' @ fmt_v lib elem) elems)),
      Errors = Errors re @ map (\<lambda>elem. k @ '': '' @ fmt_v lib elem) elems\<rparr>"
proof (induction elems arbitrary: re)
  case Nil
  then show ?case by simp
next
  case (Cons elem elems)
  show ?case
    by (simp add: Cons.IH) (simp add: addTopicAndElem_def Let_def)
qed

lemma rangeEntry_no_null:
  "v \<noteq> JNull \<Longrightarrow> rangeEntry lib k v re =
     Inr \<lparr>Status = Status re,
          Message = (if Message re \<noteq> [] then Message re else firstOr (topicErrors lib (k, v))),
          Errors = Errors re @ topicErrors lib (k, v)\<rparr>"
  by (cases v)
     (simp_all add: foldl_addTopicAndElem, simp_all add: addTopicAndElem_def Let_def fmt_v_def)

lemma topicErrors_nonempty_strings: "x \<in> set (topicErrors lib kv) \<Longrightarrow> x \<noteq> []"
  by (cases "(lib, kv)" rule: topicErrors.cases) auto

lemma firstOr_topicErrors: "topicErrors lib kv \<noteq> [] \<Longrightarrow> firstOr (topicErrors lib kv) \<noteq> []"
  using topicErrors_nonempty_strings[of "hd (topicErrors lib kv)" lib kv]
  by (cases "topicErrors lib kv") simp_all

lemma rangeMap_no_null:
  "JNull \<notin> snd ` set kvs \<Longrightarrow> rangeMap lib kvs re =
     Inr \<lparr>Status = Status re,
          Message = (if Message re \<noteq> [] then Message re
                     else firstOr (concat (map (topicErrors lib) kvs))),
          Errors = Errors re @ concat (map (topicErrors lib) kvs)\<rparr>"
proof (induction kvs arbitrary: re)
  case Nil
  then show ?case by simp
next
  case (Cons kv kvs)
  obtain k v where kv: "kv = (k, v)" by (cases kv)
  from Cons.prems kv have v: "v \<noteq> JNull" and rest: "JNull \<notin> snd ` set kvs"
    by (auto simp: image_iff)
  show ?case
    using firstOr_topicErrors[of lib "(k, v)"]
    by (simp add: kv rangeEntry_no_null[OF v] Cons.IH[OF rest] firstOr_append)
qed

lemma rangeMap_Status: "rangeMap lib kvs re0 = Inr re1 \<Longrightarrow> Status re1 = Status re0"
proof (induction kvs arbitrary: re0)
  case Nil
  then show ?case by simp
next
  case (Cons kv kvs)
  obtain k v where kv: "kv = (k, v)" by (cases kv)
  from Cons.prems obtain re' where e: "rangeEntry lib k v re0 = Inr re'"
    and m: "rangeMap lib kvs re' = Inr re1"
    by (auto simp: kv split: sum.splits)
  have "Status re' = Status re0"
    using e by (cases v) (auto simp: foldl_addTopicAndElem addTopicAndElem_def Let_def)
  with Cons.IH[OF m] show ?case by simp
qed

lemma foldl_append_errors:
  "foldl (\<lambda>acc elem. acc\<lparr>Errors := Errors acc @ [fmt_v lib elem]\<rparr>) re elems =
     re\<lparr>Errors := Errors re @ map (fmt_v lib) elems\<rparr>"
  by (induction elems arbitrary: re) simp_all

lemma flattenErrors_Status: "flattenErrors lib re0 js = Inr re1 \<Longrightarrow> Status re1 = Status re0"
  by (cases js) (auto simp: Let_def foldl_append_errors dest: rangeMap_Status)

lemma responseErrorOf_wrap:
  "Status re \<noteq> StatusNotAcceptable \<Longrightarrow> responseErrorOf (wrapSpecificError lib r re) = Some re"
  by (simp add: responseErrorOf_def wrapSpecificError_def Let_def)

text \<open>
  The error of \<^verbatim>\<open>strconv.ParseFloat\<close> is dropped: on a range error the wait is the
  conversion of an infinity, which the language leaves to the implementation.
\<close>

lemma wrapSpecificError_range_error:
  assumes "Status err = StatusTooManyRequests"
    and "strconv_ParseFloat lib (Header_Get (Header r) ''Retry-After'') = ErrRange PosInf"
  shows "wrapSpecificError lib r err =
           RateLimitErr \<lparr>RL_ResponseError = err, RetryAfter = int_of_unrepresentable lib PosInf\<rparr>"
  using assms
  by (simp add: wrapSpecificError_def ParseFloat_value_def int_of_float64_def)

lemma CheckResponseError_decoded:
  assumes "\<not> (StatusOK \<le> StatusCode r \<and> StatusCode r < StatusMultipleChoices)"
    and "ioutil_ReadAll (Body r) = (b, None)" and "b \<noteq> []"
    and "json_Unmarshal lib b = Inr se"
  shows "CheckResponseError lib r =
           (case flattenErrors lib \<lparr>Status = StatusCode r, Message = se_Error se, Errors = []\<rparr>
                   (se_Errors se) of
              Inl p \<Rightarrow> Inl p
            | Inr re \<Rightarrow> Inr (Some (wrapSpecificError lib r re)))"
  using assms by (auto simp: CheckResponseError_def)

lemma CheckResponseError_2xx:
  "StatusOK \<le> StatusCode r \<and> StatusCode r < StatusMultipleChoices \<Longrightarrow>
     CheckResponseError lib r = Inr None"
  by (simp add: CheckResponseError_def)

lemma CheckResponseError_not_nil:
  "\<not> (StatusOK \<le> StatusCode r \<and> StatusCode r < StatusMultipleChoices) \<Longrightarrow>
     CheckResponseError lib r \<noteq> Inr None"
  by (auto simp: CheckResponseError_def Let_def split: prod.splits option.splits sum.splits)

lemma Header_logResponse [simp]: "Header (logResponse resp) = Header resp"
  by (simp add: logResponse_def)

lemma doGetHeaders_attempts:
  "attempts (fst (snd (doGetHeaders lib Do c v))) =
     attempts (fst (snd (retryLoop lib Do (c\<lparr>attempts := 0\<rparr>) (retries c) [])))"
  by (simp add: doGetHeaders_def updateRateLimits_def Let_def
           split: prod.splits LoopExit.splits option.splits)

lemma doGetHeaders_panic:
  "fst (doGetHeaders lib Do c v) = Panicked p \<Longrightarrow>
     fst (retryLoop lib Do (c\<lparr>attempts := 0\<rparr>) (retries c) []) = LoopPanic p"
  by (simp add: doGetHeaders_def Let_def
           split: prod.splits LoopExit.splits option.splits if_splits)

lemma updateRateLimits_apiVersion [simp]:
  "apiVersion (updateRateLimits lib resp c) = apiVersion c"
  by (simp add: updateRateLimits_def Let_def)

lemma updateRateLimits_split:
  assumes "strings_Split (Header_Get (Header resp) ''X-Shopify-Shop-Api-Call-Limit'') CHR ''/''
             = [used, limit]"
  shows "RateLimits (updateRateLimits lib resp c) =
     \<lparr>RequestCount = fst (strconv_Atoi used), BucketSize = fst (strconv_Atoi limit),
      RetryAfterSeconds =
        ParseFloat_value (strconv_ParseFloat lib (Header_Get (Header resp) ''Retry-After''))\<rparr>"
  using assms by (simp add: updateRateLimits_def Let_def)

lemma doGetHeaders_pinned:
  assumes "apiVersion c \<noteq> defaultApiVersion"
  shows "apiVersion (fst (snd (doGetHeaders lib Do c v))) = apiVersion c"
proof -
  obtain ex k sl where
    r: "retryLoop lib Do (c\<lparr>attempts := 0\<rparr>) (retries c) [] = (ex, c\<lparr>attempts := k\<rparr>, sl)"
    by (rule retryLoop_split)
  show ?thesis
    using assms by (cases ex) (simp_all add: doGetHeaders_def r Let_def split: option.splits)
qed

lemma doCalls_pinned:
  "apiVersion c \<noteq> defaultApiVersion \<Longrightarrow> apiVersion (doCalls lib c calls) = apiVersion c"
proof (induction calls arbitrary: c)
  case Nil
  then show ?case by simp
next
  case (Cons call calls)
  obtain Do v where call: "call = (Do, v)" by (cases call)
  have "apiVersion (fst (snd (doGetHeaders lib Do c v))) = apiVersion c"
    using Cons.prems by (rule doGetHeaders_pinned)
  with Cons.prems Cons.IH[of "fst (snd (doGetHeaders lib Do c v))"] show ?case
    by (simp add: call)
qed

section \<open>Evaluation of the examples\<close>

lemma canonical_keys:
  "CanonicalMIMEHeaderKey ''Retry-After'' = ''Retry-After''"
  "CanonicalMIMEHeaderKey ''X-Shopify-API-Version'' = ''X-Shopify-Api-Version''"
  "CanonicalMIMEHeaderKey ''X-Shopify-Shop-Api-Call-Limit'' = ''X-Shopify-Shop-Api-Call-Limit''"
  by code_simp+

lemmas example_defs = exampleLib_def exampleUnmarshal_def exampleParseFloat_def
  exampleResponse_def exampleClient_def always_def bodyOrder_def bodyArray_def
  bodyEmptyString_def bodyNullTopic_def bodyMalformed_def

lemmas normalizer_defs = CheckResponseError_def wrapSpecificError_def Header_Get_def
  canonical_keys strconv_ParseFloat_def ParseFloat_value_def int_of_float64_def
  truncate_real_def logResponse_def Let_def http_StatusText_def fmt_v_def addTopicAndElem_def

lemmas call_defs = doGetHeaders_def retryLoop.simps waitDuration_def updateRateLimits_def
  strconv_Atoi_def digitsValue_def isDigit_def defaultApiVersion_def

section \<open>The claims\<close>

text \<open>
  C1 (amended). The rate-limit state is updated from the headers of a response only on
  the success path of \<^verbatim>\<open>doGetHeaders\<close>: when the loop is left by \<^verbatim>\<open>break\<close> with a
  response for which the normalizer reports no error, the body decodes into the target
  (if one is given) and the header \<^verbatim>\<open>X-Shopify-Shop-Api-Call-Limit\<close> splits on \<^verbatim>\<open>/\<close>
  into two fields, then the call returns the headers, \<^verbatim>\<open>RequestCount\<close> and
  \<^verbatim>\<open>BucketSize\<close> are \<^verbatim>\<open>strconv.Atoi\<close> of the two fields and \<^verbatim>\<open>RetryAfterSeconds\<close> is
  the value \<^verbatim>\<open>strconv.ParseFloat\<close> gives for the header \<^verbatim>\<open>Retry-After\<close>. When the call
  returns an error, the rate-limit state is what it was before the call.
\<close>

theorem doGetHeaders_rate_limits:
  "(fst (retryLoop lib Do (c\<lparr>attempts := 0\<rparr>) (retries c) []) = Break resp \<and>
    (v \<longrightarrow> json_Decode lib (fst (ioutil_ReadAll (Body resp))) = None) \<and>
    strings_Split (Header_Get (Header resp) ''X-Shopify-Shop-Api-Call-Limit'') CHR ''/''
      = [used, limit] \<longrightarrow>
      fst (doGetHeaders lib Do c v) = Ok (Header resp) \<and>
      RateLimits (fst (snd (doGetHeaders lib Do c v))) =
        \<lparr>RequestCount = fst (strconv_Atoi used), BucketSize = fst (strconv_Atoi limit),
         RetryAfterSeconds =
           ParseFloat_value (strconv_ParseFloat lib (Header_Get (Header resp) ''Retry-After''))\<rparr>) \<and>
   (fst (doGetHeaders lib Do c v) = Err e \<longrightarrow>
      RateLimits (fst (snd (doGetHeaders lib Do c v))) = RateLimits c)"
proof -
  obtain ex k sl where
    r: "retryLoop lib Do (c\<lparr>attempts := 0\<rparr>) (retries c) [] = (ex, c\<lparr>attempts := k\<rparr>, sl)"
    by (rule retryLoop_split)
  have ok: "fst (retryLoop lib Do (c\<lparr>attempts := 0\<rparr>) (retries c) []) = Break resp \<and>
    (v \<longrightarrow> json_Decode lib (fst (ioutil_ReadAll (Body resp))) = None) \<and>
    strings_Split (Header_Get (Header resp) ''X-Shopify-Shop-Api-Call-Limit'') CHR ''/''
      = [used, limit] \<longrightarrow>
      fst (doGetHeaders lib Do c v) = Ok (Header resp) \<and>
      RateLimits (fst (snd (doGetHeaders lib Do c v))) =
        \<lparr>RequestCount = fst (strconv_Atoi used), BucketSize = fst (strconv_Atoi limit),
         RetryAfterSeconds =
           ParseFloat_value (strconv_ParseFloat lib (Header_Get (Header resp) ''Retry-After''))\<rparr>"
    by (cases ex)
       (auto simp add: doGetHeaders_def r Let_def updateRateLimits_split logResponse_def
             split: option.splits)
  have err: "fst (doGetHeaders lib Do c v) = Err e \<longrightarrow>
      RateLimits (fst (snd (doGetHeaders lib Do c v))) = RateLimits c"
    by (cases ex)
       (auto simp add: doGetHeaders_def r Let_def split: option.splits if_splits)
  from ok err show ?thesis by blast
qed

text \<open>
  An instance: a 200 response with call limit \<^verbatim>\<open>39/40\<close> and no \<^verbatim>\<open>Retry-After\<close> sets
  the state to 39, 40 and 0.
\<close>

theorem doGetHeaders_rate_limits_witness:
  "fst (retryLoop exampleLib
          (always (exampleResponse 200 [(''X-Shopify-Shop-Api-Call-Limit'', ''39/40'')] []))
          ((exampleClient 0)\<lparr>attempts := 0\<rparr>) (retries (exampleClient 0)) [])
     = Break (exampleResponse 200 [(''X-Shopify-Shop-Api-Call-Limit'', ''39/40'')] []) \<and>
   strings_Split
     (Header_Get (Header (exampleResponse 200 [(''X-Shopify-Shop-Api-Call-Limit'', ''39/40'')] []))
        ''X-Shopify-Shop-Api-Call-Limit'') CHR ''/'' = [''39'', ''40''] \<and>
   RateLimits (fst (snd (doGetHeaders exampleLib
       (always (exampleResponse 200 [(''X-Shopify-Shop-Api-Call-Limit'', ''39/40'')] []))
       (exampleClient 0) False)))
     = \<lparr>RequestCount = 39, BucketSize = 40, RetryAfterSeconds = Finite 0\<rparr>"
  using doGetHeaders_rate_limits
    [of exampleLib "always (exampleResponse 200 [(''X-Shopify-Shop-Api-Call-Limit'', ''39/40'')] [])"
        "exampleClient 0" "exampleResponse 200 [(''X-Shopify-Shop-Api-Call-Limit'', ''39/40'')] []"
        False "''39''" "''40''"]
  by (simp add: example_defs normalizer_defs call_defs)

text \<open>
  The claim as stated fails on an error response: a 500 response that carries the call
  limit \<^verbatim>\<open>39/40\<close> is returned as an error and leaves \<^verbatim>\<open>RequestCount\<close> at 0.
\<close>

theorem doGetHeaders_rate_limits_error_response:
  "doGetHeaders exampleLib
     (always (exampleResponse 500 [(''X-Shopify-Shop-Api-Call-Limit'', ''39/40'')] []))
     (exampleClient 0) False
     = (Err (RespErr \<lparr>Status = 500, Message = [], Errors = []\<rparr>),
        (exampleClient 0)\<lparr>attempts := 1\<rparr>, []) \<and>
   strings_Split
     (Header_Get (Header (exampleResponse 500 [(''X-Shopify-Shop-Api-Call-Limit'', ''39/40'')] []))
        ''X-Shopify-Shop-Api-Call-Limit'') CHR ''/'' = [''39'', ''40''] \<and>
   fst (strconv_Atoi ''39'') = 39 \<and>
   RequestCount (RateLimits ((exampleClient 0)\<lparr>attempts := 1\<rparr>)) = 0"
  by (simp add: example_defs normalizer_defs call_defs)

text \<open>
  C2. For every retry budget \<open>r \<ge> 0\<close> and every behaviour of the transport, the loop of
  \<^verbatim>\<open>doGetHeaders\<close> terminates (\<open>retryLoop\<close> is a total function, its termination proved
  from the decreasing count of retries left) after at least one and at most \<open>r + 1\<close>
  dispatches of the request. It then returns the headers or an error; the only other
  way out is a panic of the normalizer on one of the responses.
\<close>

theorem retry_loop_bounded:
  assumes "0 \<le> retries c"
  shows "1 \<le> attempts (fst (snd (doGetHeaders lib Do c v))) \<and>
         int (attempts (fst (snd (doGetHeaders lib Do c v)))) \<le> retries c + 1 \<and>
         (fst (doGetHeaders lib Do c v) = Panicked p \<longrightarrow>
            (\<exists>k resp0. Do k = DoResponse resp0 \<and>
               CheckResponseError lib (logResponse resp0) = Inl p))"
proof -
  have "1 \<le> attempts (fst (snd (doGetHeaders lib Do c v))) \<and>
         int (attempts (fst (snd (doGetHeaders lib Do c v)))) \<le> retries c + 1"
    using assms retryLoop_attempts[of "c\<lparr>attempts := 0\<rparr>" lib Do "retries c" "[]"]
    by (simp add: doGetHeaders_attempts max_def split: if_splits)
  moreover have "fst (doGetHeaders lib Do c v) = Panicked p \<longrightarrow>
            (\<exists>k resp0. Do k = DoResponse resp0 \<and>
               CheckResponseError lib (logResponse resp0) = Inl p)"
    using retryLoop_panic_source[of lib Do "c\<lparr>attempts := 0\<rparr>" "retries c" "[]" p]
      doGetHeaders_panic[of lib Do c v p] by blast
  ultimately show ?thesis by blast
qed

text \<open>
  An instance: with budget 3 and a server that always answers 429 with
  \<^verbatim>\<open>Retry-After: 2\<close>, the request is dispatched 3 times, with two sleeps of 2 seconds.
\<close>

theorem retry_loop_bounded_witness:
  "0 \<le> retries (exampleClient 3) \<and>
   doGetHeaders exampleLib (always (exampleResponse 429 [(''Retry-After'', ''2'')] []))
       (exampleClient 3) False
     = (Err (RateLimitErr \<lparr>RL_ResponseError = \<lparr>Status = 429, Message = [], Errors = []\<rparr>,
                           RetryAfter = 2\<rparr>),
        (exampleClient 3)\<lparr>attempts := 3\<rparr>, [2000000000, 2000000000]) \<and>
   int (attempts (fst (snd (doGetHeaders exampleLib
       (always (exampleResponse 429 [(''Retry-After'', ''2'')] [])) (exampleClient 3) False))))
     \<le> retries (exampleClient 3) + 1"
  using retry_loop_bounded
    [of "exampleClient 3" exampleLib "always (exampleResponse 429 [(''Retry-After'', ''2'')] [])"
        False NilPointerDereference]
  by (simp add: example_defs normalizer_defs call_defs)

text \<open>
  C3 (amended). The string of a \<^verbatim>\<open>ResponseError\<close> is the message when the message is
  not empty; otherwise the sub-errors, sorted and joined with \<^verbatim>\<open>", "\<close>, when that string
  is not empty, which is when the list of sub-errors is neither empty nor the single
  empty string; otherwise \<^verbatim>\<open>"Unknown Error"\<close>. The sorted list is ascending and a
  permutation of the sub-errors.
\<close>

theorem ResponseError_Error_precedence:
  "(Message e \<noteq> [] \<longrightarrow> ResponseError_Error e = Message e) \<and>
   (Message e = [] \<and> Errors e \<noteq> [] \<and> Errors e \<noteq> [[]] \<longrightarrow>
      ResponseError_Error e = strings_Join (sort_Strings (Errors e)) '', '') \<and>
   (Message e = [] \<and> (Errors e = [] \<or> Errors e = [[]]) \<longrightarrow>
      ResponseError_Error e = ''Unknown Error'') \<and>
   sorted (sort_Strings (Errors e)) \<and> mset (sort_Strings (Errors e)) = mset (Errors e)"
proof -
  have "sort_Strings (Errors e) = [] \<longleftrightarrow> Errors e = []"
    by (metis sort_Strings_def length_sort length_0_conv)
  moreover have "sort_Strings (Errors e) = [[]] \<longleftrightarrow> Errors e = [[]]"
    unfolding sort_Strings_def
    by (metis mset_sort mset_single_iff_right mset.simps(2) mset_zero_iff add_mset_eq_single
          sort_key_simps(1) insort_key.simps(1))
  ultimately show ?thesis
    by (auto simp: ResponseError_Error_def Let_def strings_Join_empty_iff sort_Strings_def)
qed

text \<open>Instances: a message, the two sub-errors of the claim, and no message at all.\<close>

theorem ResponseError_Error_precedence_witness:
  "ResponseError_Error \<lparr>Status = 400, Message = ''oh no'', Errors = [''b'', ''a'']\<rparr> = ''oh no'' \<and>
   ResponseError_Error
     \<lparr>Status = 0, Message = [], Errors = [''not a valid title'', ''not a valid description'']\<rparr>
     = ''not a valid description, not a valid title'' \<and>
   ResponseError_Error \<lparr>Status = 0, Message = [], Errors = []\<rparr> = ''Unknown Error''"
  using ResponseError_Error_precedence[of "\<lparr>Status = 400, Message = ''oh no'', Errors = [''b'', ''a'']\<rparr>"]
    ResponseError_Error_precedence
      [of "\<lparr>Status = 0, Message = [],
             Errors = [''not a valid title'', ''not a valid description'']\<rparr>"]
    ResponseError_Error_precedence[of "\<lparr>Status = 0, Message = [], Errors = []\<rparr>"]
  by (simp add: sort_Strings_def)

text \<open>
  The claim as stated fails where the list of sub-errors is not empty and joins to the
  empty string: the claim gives the joined string, which is empty, and the code gives
  \<^verbatim>\<open>"Unknown Error"\<close>.
\<close>

theorem ResponseError_Error_empty_sub_error:
  "Errors \<lparr>Status = 400, Message = [], Errors = [[]]\<rparr> \<noteq> [] \<and>
   strings_Join (sort_Strings (Errors \<lparr>Status = 400, Message = [], Errors = [[]]\<rparr>)) '', '' = [] \<and>
   ResponseError_Error \<lparr>Status = 400, Message = [], Errors = [[]]\<rparr> = ''Unknown Error''"
  by (simp add: ResponseError_Error_def sort_Strings_def)

text \<open>
  C4 (amended). For a response whose status is outside [200,300) and is not 406, whose
  body is read, is not empty and decodes with an \<^verbatim>\<open>errors\<close> field that is an object no
  value of which is \<^verbatim>\<open>null\<close>: \<^verbatim>\<open>CheckResponseError\<close> returns a \<^verbatim>\<open>ResponseError\<close>
  (embedded in a \<^verbatim>\<open>RateLimitError\<close> for status 429) whose sub-errors are, key after key
  in the order of the iteration, one \<^verbatim>\<open>"<key>: <element>"\<close> per element of a value that
  is an array and one \<^verbatim>\<open>"<key>: <value>"\<close> for a value that is a string, and whose
  message is the \<^verbatim>\<open>error\<close> field if that is not empty and the first sub-error
  otherwise (the empty string if there is no sub-error).
\<close>

theorem CheckResponseError_object:
  assumes "\<not> (StatusOK \<le> StatusCode r \<and> StatusCode r < StatusMultipleChoices)"
    and "StatusCode r \<noteq> StatusNotAcceptable"
    and "ioutil_ReadAll (Body r) = (b, None)" and "b \<noteq> []"
    and "json_Unmarshal lib b = Inr se"
    and "se_Errors se = JObject kvs"
    and "JNull \<notin> snd ` set kvs"
    and "re = \<lparr>Status = StatusCode r,
               Message = (if se_Error se \<noteq> [] then se_Error se
                          else firstOr (concat (map (topicErrors lib) kvs))),
               Errors = concat (map (topicErrors lib) kvs)\<rparr>"
  shows "CheckResponseError lib r = Inr (Some (wrapSpecificError lib r re)) \<and>
         responseErrorOf (wrapSpecificError lib r re) = Some re"
  using assms
  by (simp add: CheckResponseError_decoded rangeMap_no_null responseErrorOf_wrap)

text \<open>The instance of the claim: status 400 and the topic \<^verbatim>\<open>order\<close>.\<close>

theorem CheckResponseError_object_witness:
  "\<not> (StatusOK \<le> StatusCode (exampleResponse 400 [] bodyOrder) \<and>
       StatusCode (exampleResponse 400 [] bodyOrder) < StatusMultipleChoices) \<and>
   StatusCode (exampleResponse 400 [] bodyOrder) \<noteq> StatusNotAcceptable \<and>
   ioutil_ReadAll (Body (exampleResponse 400 [] bodyOrder)) = (bodyOrder, None) \<and>
   bodyOrder \<noteq> [] \<and>
   json_Unmarshal exampleLib bodyOrder =
     Inr \<lparr>se_Error = [], se_Errors = JObject [(''order'', JArray [JString ''order is wrong''])]\<rparr> \<and>
   JNull \<notin> snd ` set [(''order'', JArray [JString ''order is wrong''])] \<and>
   CheckResponseError exampleLib (exampleResponse 400 [] bodyOrder) =
     Inr (Some (RespErr \<lparr>Status = 400, Message = ''order: order is wrong'',
                         Errors = [''order: order is wrong'']\<rparr>))"
  using CheckResponseError_object
    [of "exampleResponse 400 [] bodyOrder" bodyOrder exampleLib
        "\<lparr>se_Error = [], se_Errors = JObject [(''order'', JArray [JString ''order is wrong''])]\<rparr>"
        "[(''order'', JArray [JString ''order is wrong''])]"
        "\<lparr>Status = 400, Message = ''order: order is wrong'', Errors = [''order: order is wrong'']\<rparr>"]
  by (simp add: example_defs normalizer_defs)

text \<open>
  The claim as stated fails at status 406, where \<^verbatim>\<open>wrapSpecificError\<close> replaces the
  message by the status text: the first sub-error is not the message.
\<close>

theorem CheckResponseError_object_not_acceptable:
  "ioutil_ReadAll (Body (exampleResponse 406 [] bodyOrder)) = (bodyOrder, None) \<and>
   json_Unmarshal exampleLib bodyOrder =
     Inr \<lparr>se_Error = [], se_Errors = JObject [(''order'', JArray [JString ''order is wrong''])]\<rparr> \<and>
   CheckResponseError exampleLib (exampleResponse 406 [] bodyOrder) =
     Inr (Some (RespErr \<lparr>Status = 406, Message = ''Not Acceptable'',
                         Errors = [''order: order is wrong'']\<rparr>))"
  by (simp add: example_defs normalizer_defs)

text \<open>
  C5 (amended). For a response whose status is outside [200,300) and is not 406, whose
  body is read, is not empty and decodes with an \<^verbatim>\<open>errors\<close> field that is an array:
  \<^verbatim>\<open>CheckResponseError\<close> returns a \<^verbatim>\<open>ResponseError\<close> (embedded in a \<^verbatim>\<open>RateLimitError\<close>
  for status 429) whose sub-errors are the elements, each formatted with \<^verbatim>\<open>fmt.Sprint\<close>,
  in the order of the array, and whose message is these strings joined with \<^verbatim>\<open>", "\<close> in
  the same order.
\<close>

theorem CheckResponseError_array:
  assumes "\<not> (StatusOK \<le> StatusCode r \<and> StatusCode r < StatusMultipleChoices)"
    and "StatusCode r \<noteq> StatusNotAcceptable"
    and "ioutil_ReadAll (Body r) = (b, None)" and "b \<noteq> []"
    and "json_Unmarshal lib b = Inr se"
    and "se_Errors se = JArray elems"
    and "re = \<lparr>Status = StatusCode r,
               Message = strings_Join (map (fmt_v lib) elems) '', '',
               Errors = map (fmt_v lib) elems\<rparr>"
  shows "CheckResponseError lib r = Inr (Some (wrapSpecificError lib r re)) \<and>
         responseErrorOf (wrapSpecificError lib r re) = Some re"
  using assms
  by (simp add: CheckResponseError_decoded foldl_append_errors responseErrorOf_wrap Let_def)

text \<open>The instance of the claim: status 500 and the array \<^verbatim>\<open>["not","very good"]\<close>.\<close>

theorem CheckResponseError_array_witness:
  "\<not> (StatusOK \<le> StatusCode (exampleResponse 500 [] bodyArray) \<and>
       StatusCode (exampleResponse 500 [] bodyArray) < StatusMultipleChoices) \<and>
   StatusCode (exampleResponse 500 [] bodyArray) \<noteq> StatusNotAcceptable \<and>
   ioutil_ReadAll (Body (exampleResponse 500 [] bodyArray)) = (bodyArray, None) \<and>
   bodyArray \<noteq> [] \<and>
   json_Unmarshal exampleLib bodyArray =
     Inr \<lparr>se_Error = [], se_Errors = JArray [JString ''not'', JString ''very good'']\<rparr> \<and>
   CheckResponseError exampleLib (exampleResponse 500 [] bodyArray) =
     Inr (Some (RespErr \<lparr>Status = 500, Message = ''not, very good'',
                         Errors = [''not'', ''very good'']\<rparr>))"
  using CheckResponseError_array
    [of "exampleResponse 500 [] bodyArray" bodyArray exampleLib
        "\<lparr>se_Error = [], se_Errors = JArray [JString ''not'', JString ''very good'']\<rparr>"
        "[JString ''not'', JString ''very good'']"
        "\<lparr>Status = 500, Message = ''not, very good'', Errors = [''not'', ''very good'']\<rparr>"]
  by (simp add: example_defs normalizer_defs)

text \<open>
  The claim as stated fails at status 406, where the message is the status text and not
  the joined elements.
\<close>

theorem CheckResponseError_array_not_acceptable:
  "ioutil_ReadAll (Body (exampleResponse 406 [] bodyArray)) = (bodyArray, None) \<and>
   json_Unmarshal exampleLib bodyArray =
     Inr \<lparr>se_Error = [], se_Errors = JArray [JString ''not'', JString ''very good'']\<rparr> \<and>
   CheckResponseError exampleLib (exampleResponse 406 [] bodyArray) =
     Inr (Some (RespErr \<lparr>Status = 406, Message = ''Not Acceptable'',
                         Errors = [''not'', ''very good'']\<rparr>))"
  by (simp add: example_defs normalizer_defs)

text \<open>
  C6 (amended). For a response with status 429 whose body is read and is empty or
  decodes, and from which a \<^verbatim>\<open>ResponseError\<close> is built: \<^verbatim>\<open>CheckResponseError\<close> returns
  the \<^verbatim>\<open>RateLimitError\<close> that embeds this \<^verbatim>\<open>ResponseError\<close> and whose \<^verbatim>\<open>RetryAfter\<close> is
  \<^verbatim>\<open>int(f)\<close> for the value \<open>f\<close> that \<^verbatim>\<open>strconv.ParseFloat\<close> gives for the header
  \<^verbatim>\<open>Retry-After\<close>: 0 when the header is absent, empty or not a number by its syntax, and
  the seconds truncated towards zero when the header parses to a finite number whose
  truncation fits an \<^verbatim>\<open>int\<close>.
\<close>

theorem CheckResponseError_rate_limit:
  assumes "StatusCode r = StatusTooManyRequests"
    and "ioutil_ReadAll (Body r) = (b, None)"
    and "(b \<noteq> [] \<and> json_Unmarshal lib b = Inr se) \<or>
         (b = [] \<and> se = \<lparr>se_Error = [], se_Errors = JNull\<rparr>)"
    and "flattenErrors lib \<lparr>Status = StatusCode r, Message = se_Error se, Errors = []\<rparr>
           (se_Errors se) = Inr re"
    and "pf = strconv_ParseFloat lib (Header_Get (Header r) ''Retry-After'')"
    and "ra = int_of_float64 lib (ParseFloat_value pf)"
  shows "CheckResponseError lib r =
           Inr (Some (RateLimitErr \<lparr>RL_ResponseError = re, RetryAfter = ra\<rparr>)) \<and>
         (Header_Get (Header r) ''Retry-After'' = [] \<or> pf = ErrSyntax \<longrightarrow> ra = 0) \<and>
         (\<forall>x. pf = Parsed (Finite x) \<and> - 9223372036854775808 \<le> truncate_real x \<and>
               truncate_real x \<le> 9223372036854775807 \<longrightarrow> ra = truncate_real x)"
proof -
  have st: "Status re = StatusTooManyRequests"
    using flattenErrors_Status[OF assms(4)] assms(1) by simp
  have "CheckResponseError lib r = Inr (Some (wrapSpecificError lib r re))"
    using assms(1-4) by (auto simp: CheckResponseError_def)
  then have "CheckResponseError lib r =
           Inr (Some (RateLimitErr \<lparr>RL_ResponseError = re, RetryAfter = ra\<rparr>))"
    using st assms(5,6) by (simp add: wrapSpecificError_def Let_def)
  moreover have "Header_Get (Header r) ''Retry-After'' = [] \<or> pf = ErrSyntax \<longrightarrow> ra = 0"
    using assms(5,6)
    by (auto simp: strconv_ParseFloat_def ParseFloat_value_def int_of_float64_def
          truncate_real_def)
  moreover have "\<forall>x. pf = Parsed (Finite x) \<and> - 9223372036854775808 \<le> truncate_real x \<and>
               truncate_real x \<le> 9223372036854775807 \<longrightarrow> ra = truncate_real x"
    using assms(6) by (simp add: ParseFloat_value_def int_of_float64_def)
  ultimately show ?thesis by blast
qed

text \<open>
  Instances: \<^verbatim>\<open>Retry-After: 2.5\<close> on an empty body gives 2 seconds; no \<^verbatim>\<open>Retry-After\<close>
  on the body with the topic \<^verbatim>\<open>order\<close> gives 0 seconds.
\<close>

theorem CheckResponseError_rate_limit_witness:
  "StatusCode (exampleResponse 429 [(''Retry-After'', ''2.5'')] []) = StatusTooManyRequests \<and>
   ioutil_ReadAll (Body (exampleResponse 429 [(''Retry-After'', ''2.5'')] [])) = ([], None) \<and>
   strconv_ParseFloat exampleLib
     (Header_Get (Header (exampleResponse 429 [(''Retry-After'', ''2.5'')] [])) ''Retry-After'')
     = Parsed (Finite (5 / 2)) \<and>
   truncate_real (5 / 2) = 2 \<and>
   CheckResponseError exampleLib (exampleResponse 429 [(''Retry-After'', ''2.5'')] []) =
     Inr (Some (RateLimitErr
       \<lparr>RL_ResponseError = \<lparr>Status = 429, Message = [], Errors = []\<rparr>, RetryAfter = 2\<rparr>)) \<and>
   Header_Get (Header (exampleResponse 429 [] bodyOrder)) ''Retry-After'' = [] \<and>
   CheckResponseError exampleLib (exampleResponse 429 [] bodyOrder) =
     Inr (Some (RateLimitErr
       \<lparr>RL_ResponseError = \<lparr>Status = 429, Message = ''order: order is wrong'',
                             Errors = [''order: order is wrong'']\<rparr>,
        RetryAfter = 0\<rparr>))"
  using CheckResponseError_rate_limit
    [of "exampleResponse 429 [(''Retry-After'', ''2.5'')] []" "[]" exampleLib
        "\<lparr>se_Error = [], se_Errors = JNull\<rparr>" "\<lparr>Status = 429, Message = [], Errors = []\<rparr>"
        "Parsed (Finite (5 / 2))" 2]
    CheckResponseError_rate_limit
    [of "exampleResponse 429 [] bodyOrder" bodyOrder exampleLib
        "\<lparr>se_Error = [], se_Errors = JObject [(''order'', JArray [JString ''order is wrong''])]\<rparr>"
        "\<lparr>Status = 429, Message = ''order: order is wrong'', Errors = [''order: order is wrong'']\<rparr>"
        ErrSyntax 0]
  by (simp add: example_defs normalizer_defs)

text \<open>
  The claim as stated fails on a 429 response whose body is not JSON: the error returned
  is a \<^verbatim>\<open>ResponseDecodingError\<close>, not a \<^verbatim>\<open>RateLimitError\<close>.
\<close>

theorem CheckResponseError_rate_limit_malformed_body:
  "StatusCode (exampleResponse 429 [(''Retry-After'', ''2'')] bodyMalformed)
     = StatusTooManyRequests \<and>
   CheckResponseError exampleLib (exampleResponse 429 [(''Retry-After'', ''2'')] bodyMalformed) =
     Inr (Some (DecodingErr
       \<lparr>RDE_Body = bodyMalformed, RDE_Message = ''invalid character'', RDE_Status = 429\<rparr>))"
  by (simp add: example_defs normalizer_defs)

text \<open>
  C7. For a response whose status is outside [200,300) and whose body is read: if the
  body is not empty and the JSON decoder fails on it, \<^verbatim>\<open>CheckResponseError\<close> returns the
  \<^verbatim>\<open>ResponseDecodingError\<close> with the raw bytes, the decoder's message and the status
  code; if the body is empty, it returns what \<^verbatim>\<open>wrapSpecificError\<close> makes of the
  \<^verbatim>\<open>ResponseError\<close> with the status, an empty message and no sub-errors, which is not a
  decoding error.
\<close>

theorem CheckResponseError_decoding:
  assumes "\<not> (StatusOK \<le> StatusCode r \<and> StatusCode r < StatusMultipleChoices)"
    and "ioutil_ReadAll (Body r) = (b, None)"
  shows "(b \<noteq> [] \<and> json_Unmarshal lib b = Inl msg \<longrightarrow>
            CheckResponseError lib r =
              Inr (Some (DecodingErr
                \<lparr>RDE_Body = b, RDE_Message = msg, RDE_Status = StatusCode r\<rparr>))) \<and>
         (b = [] \<longrightarrow>
            CheckResponseError lib r =
              Inr (Some (wrapSpecificError lib r
                           \<lparr>Status = StatusCode r, Message = [], Errors = []\<rparr>)) \<and>
            (\<forall>d. CheckResponseError lib r \<noteq> Inr (Some (DecodingErr d))))"
  using assms by (auto simp: CheckResponseError_def wrapSpecificError_def Let_def)

text \<open>Instances: the malformed body of the tests at status 400, and an empty body.\<close>

theorem CheckResponseError_decoding_witness:
  "\<not> (StatusOK \<le> StatusCode (exampleResponse 400 [] bodyMalformed) \<and>
       StatusCode (exampleResponse 400 [] bodyMalformed) < StatusMultipleChoices) \<and>
   ioutil_ReadAll (Body (exampleResponse 400 [] bodyMalformed)) = (bodyMalformed, None) \<and>
   bodyMalformed \<noteq> [] \<and>
   json_Unmarshal exampleLib bodyMalformed = Inl ''invalid character'' \<and>
   CheckResponseError exampleLib (exampleResponse 400 [] bodyMalformed) =
     Inr (Some (DecodingErr
       \<lparr>RDE_Body = bodyMalformed, RDE_Message = ''invalid character'', RDE_Status = 400\<rparr>)) \<and>
   ioutil_ReadAll (Body (exampleResponse 400 [] [])) = ([], None) \<and>
   CheckResponseError exampleLib (exampleResponse 400 [] []) =
     Inr (Some (RespErr \<lparr>Status = 400, Message = [], Errors = []\<rparr>))"
  using CheckResponseError_decoding
    [of "exampleResponse 400 [] bodyMalformed" bodyMalformed exampleLib "''invalid character''"]
    CheckResponseError_decoding[of "exampleResponse 400 [] []" "[]" exampleLib "[]"]
  by (simp add: example_defs normalizer_defs)

text \<open>
  C8 (the failing input). A 400 response whose body is \<^verbatim>\<open>{"errors":{"order":null}}\<close>: the
  body is read and decodes, the value of the key is the nil interface, and
  \<^verbatim>\<open>reflect.TypeOf(v).Kind()\<close> panics; \<^verbatim>\<open>CheckResponseError\<close> returns no error value.
\<close>

theorem CheckResponseError_null_topic_panics:
  "ioutil_ReadAll (Body (exampleResponse 400 [] bodyNullTopic)) = (bodyNullTopic, None) \<and>
   json_Unmarshal exampleLib bodyNullTopic =
     Inr \<lparr>se_Error = [], se_Errors = JObject [(''order'', JNull)]\<rparr> \<and>
   CheckResponseError exampleLib (exampleResponse 400 [] bodyNullTopic) =
     Inl NilPointerDereference"
  by (simp add: example_defs normalizer_defs)

text \<open>
  C9. If the client's \<^verbatim>\<open>apiVersion\<close> is \<^verbatim>\<open>"stable"\<close> and the loop of \<^verbatim>\<open>doGetHeaders\<close> ends
  with a response without error that carries a non-empty \<^verbatim>\<open>X-Shopify-API-Version\<close>
  header (in particular when the call returns such headers), the call sets
  \<^verbatim>\<open>apiVersion\<close> to the header's value. If \<^verbatim>\<open>apiVersion\<close> is not \<^verbatim>\<open>"stable"\<close>, no call of
  \<^verbatim>\<open>doGetHeaders\<close> and no sequence of calls changes it, whatever the responses carry.
\<close>

theorem apiVersion_pinned_once:
  "(apiVersion c = defaultApiVersion \<and>
    fst (retryLoop lib Do (c\<lparr>attempts := 0\<rparr>) (retries c) []) = Break resp \<and>
    Header_Get (Header resp) ''X-Shopify-API-Version'' \<noteq> [] \<longrightarrow>
      apiVersion (fst (snd (doGetHeaders lib Do c v))) =
        Header_Get (Header resp) ''X-Shopify-API-Version'') \<and>
   (apiVersion c = defaultApiVersion \<and> fst (doGetHeaders lib Do c v) = Ok h \<and>
    Header_Get h ''X-Shopify-API-Version'' \<noteq> [] \<longrightarrow>
      apiVersion (fst (snd (doGetHeaders lib Do c v))) = Header_Get h ''X-Shopify-API-Version'') \<and>
   (apiVersion c \<noteq> defaultApiVersion \<longrightarrow>
      apiVersion (fst (snd (doGetHeaders lib Do c v))) = apiVersion c \<and>
      apiVersion (doCalls lib c calls) = apiVersion c)"
proof -
  obtain ex k sl where
    r: "retryLoop lib Do (c\<lparr>attempts := 0\<rparr>) (retries c) [] = (ex, c\<lparr>attempts := k\<rparr>, sl)"
    by (rule retryLoop_split)
  have brk: "apiVersion c = defaultApiVersion \<and>
      fst (retryLoop lib Do (c\<lparr>attempts := 0\<rparr>) (retries c) []) = Break resp \<and>
      Header_Get (Header resp) ''X-Shopify-API-Version'' \<noteq> [] \<longrightarrow>
        apiVersion (fst (snd (doGetHeaders lib Do c v))) =
          Header_Get (Header resp) ''X-Shopify-API-Version''"
    by (cases ex) (auto simp add: doGetHeaders_def r Let_def split: option.splits)
  have ok: "apiVersion c = defaultApiVersion \<and> fst (doGetHeaders lib Do c v) = Ok h \<and>
      Header_Get h ''X-Shopify-API-Version'' \<noteq> [] \<longrightarrow>
        apiVersion (fst (snd (doGetHeaders lib Do c v))) = Header_Get h ''X-Shopify-API-Version''"
    by (cases ex) (auto simp add: doGetHeaders_def r Let_def split: option.splits if_splits)
  have pin: "apiVersion c \<noteq> defaultApiVersion \<longrightarrow>
      apiVersion (fst (snd (doGetHeaders lib Do c v))) = apiVersion c \<and>
      apiVersion (doCalls lib c calls) = apiVersion c"
    by (simp add: doGetHeaders_pinned doCalls_pinned)
  from brk ok pin show ?thesis by blast
qed

text \<open>
  Instances: the first successful response pins \<^verbatim>\<open>2020-01\<close>; a later response that
  carries \<^verbatim>\<open>2020-04\<close> leaves \<^verbatim>\<open>2020-01\<close> in place.
\<close>

theorem apiVersion_pinned_once_witness:
  "apiVersion (exampleClient 0) = defaultApiVersion \<and>
   fst (doGetHeaders exampleLib
          (always (exampleResponse 200 [(''X-Shopify-Api-Version'', ''2020-01'')] []))
          (exampleClient 0) False)
     = Ok (Header (exampleResponse 200 [(''X-Shopify-Api-Version'', ''2020-01'')] [])) \<and>
   apiVersion (fst (snd (doGetHeaders exampleLib
       (always (exampleResponse 200 [(''X-Shopify-Api-Version'', ''2020-01'')] []))
       (exampleClient 0) False))) = ''2020-01'' \<and>
   apiVersion ((exampleClient 0)\<lparr>apiVersion := ''2020-01''\<rparr>) \<noteq> defaultApiVersion \<and>
   apiVersion (doCalls exampleLib ((exampleClient 0)\<lparr>apiVersion := ''2020-01''\<rparr>)
       [(always (exampleResponse 200 [(''X-Shopify-Api-Version'', ''2020-04'')] []), False)])
     = ''2020-01''"
  using apiVersion_pinned_once
    [of "exampleClient 0" exampleLib
        "always (exampleResponse 200 [(''X-Shopify-Api-Version'', ''2020-01'')] [])"
        "exampleResponse 200 [(''X-Shopify-Api-Version'', ''2020-01'')] []"
        False "Header (exampleResponse 200 [(''X-Shopify-Api-Version'', ''2020-01'')] [])" "[]"]
    apiVersion_pinned_once
    [of "(exampleClient 0)\<lparr>apiVersion := ''2020-01''\<rparr>" exampleLib
        "always (exampleResponse 200 [(''X-Shopify-Api-Version'', ''2020-04'')] [])"
        "exampleResponse 200 [(''X-Shopify-Api-Version'', ''2020-04'')] []"
        False "Header (exampleResponse 200 [(''X-Shopify-Api-Version'', ''2020-04'')] [])"
        "[(always (exampleResponse 200 [(''X-Shopify-Api-Version'', ''2020-04'')] []), False)]"]
  by (simp add: example_defs normalizer_defs call_defs)

text \<open>
  C10. With retry budget 0 and with retry budget 1, \<^verbatim>\<open>doGetHeaders\<close> behaves alike on
  every client, transport and target: the same outcome, the same client afterwards but
  for the configured budget, exactly one attempt, no sleep; and an error of the
  normalizer on the first response is returned at once.
\<close>

theorem retries_zero_one_equivalent:
  "fst (doGetHeaders lib Do (c\<lparr>retries := 0\<rparr>) v) = fst (doGetHeaders lib Do (c\<lparr>retries := 1\<rparr>) v) \<and>
   fst (snd (doGetHeaders lib Do (c\<lparr>retries := 0\<rparr>) v)) =
     (fst (snd (doGetHeaders lib Do (c\<lparr>retries := 1\<rparr>) v)))\<lparr>retries := 0\<rparr> \<and>
   attempts (fst (snd (doGetHeaders lib Do (c\<lparr>retries := 0\<rparr>) v))) = 1 \<and>
   attempts (fst (snd (doGetHeaders lib Do (c\<lparr>retries := 1\<rparr>) v))) = 1 \<and>
   snd (snd (doGetHeaders lib Do (c\<lparr>retries := 0\<rparr>) v)) = [] \<and>
   snd (snd (doGetHeaders lib Do (c\<lparr>retries := 1\<rparr>) v)) = [] \<and>
   (Do 0 = DoResponse resp0 \<and> CheckResponseError lib (logResponse resp0) = Inr (Some respErr) \<longrightarrow>
      fst (doGetHeaders lib Do (c\<lparr>retries := 0\<rparr>) v) = Err respErr \<and>
      fst (doGetHeaders lib Do (c\<lparr>retries := 1\<rparr>) v) = Err respErr)"
  by (cases "Do 0")
     (auto simp add: doGetHeaders_def retryLoop_once Let_def updateRateLimits_def
           split: sum.splits option.splits)

text \<open>
  An instance: a 429 response with \<^verbatim>\<open>Retry-After: 2\<close> is returned as a
  \<^verbatim>\<open>RateLimitError\<close> after one attempt and without a sleep, with budget 0 and budget 1.
\<close>

theorem retries_zero_one_equivalent_witness:
  "always (exampleResponse 429 [(''Retry-After'', ''2'')] []) 0 =
     DoResponse (exampleResponse 429 [(''Retry-After'', ''2'')] []) \<and>
   CheckResponseError exampleLib (logResponse (exampleResponse 429 [(''Retry-After'', ''2'')] [])) =
     Inr (Some (RateLimitErr
       \<lparr>RL_ResponseError = \<lparr>Status = 429, Message = [], Errors = []\<rparr>, RetryAfter = 2\<rparr>)) \<and>
   doGetHeaders exampleLib (always (exampleResponse 429 [(''Retry-After'', ''2'')] []))
     ((exampleClient 5)\<lparr>retries := 0\<rparr>) False =
     (Err (RateLimitErr
        \<lparr>RL_ResponseError = \<lparr>Status = 429, Message = [], Errors = []\<rparr>, RetryAfter = 2\<rparr>),
      (exampleClient 0)\<lparr>attempts := 1\<rparr>, []) \<and>
   doGetHeaders exampleLib (always (exampleResponse 429 [(''Retry-After'', ''2'')] []))
     ((exampleClient 5)\<lparr>retries := 1\<rparr>) False =
     (Err (RateLimitErr
        \<lparr>RL_ResponseError = \<lparr>Status = 429, Message = [], Errors = []\<rparr>, RetryAfter = 2\<rparr>),
      (exampleClient 1)\<lparr>attempts := 1\<rparr>, [])"
  using retries_zero_one_equivalent
    [of exampleLib "always (exampleResponse 429 [(''Retry-After'', ''2'')] [])" "exampleClient 5"
        False "exampleResponse 429 [(''Retry-After'', ''2'')] []"
        "RateLimitErr \<lparr>RL_ResponseError = \<lparr>Status = 429, Message = [], Errors = []\<rparr>,
                       RetryAfter = 2\<rparr>"]
  by (simp add: example_defs normalizer_defs call_defs)

end
